theory Spec2Isabelle
  imports Main "HOL-Library.Word" "HOL-Library.Sublist" "HOL-Library.Multiset"
begin

section \<open>Strings\<close>

text \<open>
  A JavaScript string is a sequence of UTF-16 code units: \<open>.length\<close>, \<open>padEnd\<close>,
  \<open>repeat\<close> and \<open>===\<close> all work on code units. \<open>str\<close> embeds an ASCII literal.
\<close>

type_synonym jsstring = "16 word list"

definition str :: "string \<Rightarrow> jsstring" where
  "str s = map of_char s"

text \<open>\<open>String.prototype.padEnd(targetLength)\<close> with the default filler, a space.\<close>

definition padEnd :: "jsstring \<Rightarrow> nat \<Rightarrow> jsstring" where
  "padEnd s targetLength = s @ replicate (targetLength - length s) 32"

text \<open>\<open>'-'.repeat(count)\<close>.\<close>

definition repeat_dash :: "nat \<Rightarrow> jsstring" where
  "repeat_dash n = replicate n 45"

text \<open>A non-negative integer in a template literal: its decimal digits.\<close>

fun toString :: "nat \<Rightarrow> jsstring" where
  "toString n =
     (if n < 10 then [of_nat (48 + n)]
      else toString (n div 10) @ [of_nat (48 + n mod 10)])"

declare toString.simps [simp del]

text \<open>\<open>Array.prototype.join(sep)\<close>.\<close>

fun join :: "jsstring \<Rightarrow> jsstring list \<Rightarrow> jsstring" where
  "join sep [] = []"
| "join sep [x] = x"
| "join sep (x # y # ys) = x @ sep @ join sep (y # ys)"

text \<open>\<open>value || 'Unknown'\<close>: the empty string is the only falsy string.\<close>

definition orUnknown :: "jsstring \<Rightarrow> jsstring" where
  "orUnknown s = (if s = [] then str ''Unknown'' else s)"

section \<open>Data model (types.ts)\<close>

record ThreatHash =
  hash_archive :: jsstring
  hash_hash :: jsstring
  hash_type :: jsstring

text \<open>
  \<open>indicators\<close> is an open key-value bag of which only \<open>Object.keys\<close> is ever read;
  it is kept as its key sequence.
\<close>

record PhylumThreatPackage =
  created :: jsstring
  ecosystem :: jsstring
  hashes :: "ThreatHash list option"
  indicators :: "jsstring list"
  name :: jsstring
  version :: jsstring

record VeracodeWorkspace =
  ws_id :: jsstring
  ws_name :: jsstring
  ws_created :: jsstring
  ws_lastUpdated :: jsstring

record VeracodeProject =
  proj_id :: jsstring
  proj_name :: jsstring
  proj_workspaceId :: jsstring
  proj_created :: jsstring
  proj_lastUpdated :: jsstring

text \<open>Of \<open>vulnerabilities: any[]\<close> only the length is read.\<close>

record VeracodeLibrary =
  lib_id :: jsstring
  lib_name :: jsstring
  lib_version :: jsstring
  lib_ecosystem :: jsstring
  lib_license :: jsstring
  lib_vulnerabilities :: "unit list"

text \<open>The element type of \<open>allLibraries\<close>: \<open>{ library, project, workspace }\<close>.\<close>

record InventoryTriple =
  library :: VeracodeLibrary
  project :: VeracodeProject
  workspace :: VeracodeWorkspace

record VulnerableMatch =
  match_threatPackage :: PhylumThreatPackage
  match_library :: VeracodeLibrary
  match_project :: VeracodeProject
  match_workspace :: VeracodeWorkspace

section \<open>Responses and errors\<close>

text \<open>
  \<open>cursor\<close> is declared \<open>number | undefined\<close>; the wire value is whatever JSON scalar the
  feed sends, so a string is representable too. \<open>truthy\<close> is JavaScript's \<open>ToBoolean\<close>
  on these values.
\<close>

datatype cursor_value = CursorNumber int | CursorString jsstring

fun truthy :: "cursor_value option \<Rightarrow> bool" where
  "truthy None = False"
| "truthy (Some (CursorNumber n)) = (n \<noteq> 0)"
| "truthy (Some (CursorString s)) = (s \<noteq> [])"

record PhylumThreatFeedResponse =
  has_next :: bool
  has_previous :: bool
  packages :: "PhylumThreatPackage list"
  cursor :: "cursor_value option"

text \<open>
  The \<open>page\<close> object of a Veracode response. The interfaces declare the fields as
  numbers; the code reads them with \<open>?.\<close> and \<open>|| 0\<close>, so each may be missing.
\<close>

record PageInfo =
  page_size :: "int option"
  totalElements :: "int option"
  totalPages :: "int option"
  number :: "int option"

text \<open>
  \<open>VeracodeProjectsResponse\<close> and \<open>VeracodeLibrariesResponse\<close> have the same shape up to
  the name of the embedded array. \<open>embedded\<close> is the value of \<open>_embedded?.projects\<close>
  (\<open>_embedded?.libraries\<close>), \<open>None\<close> when it is undefined. The workspaces endpoint answers
  in the same shape; \<open>VeracodeWorkspacesResponse\<close> declares \<open>_embedded\<close> only and the code
  never reads \<open>page\<close> there.
\<close>

record 'a VeracodePagedResponse =
  embedded :: "'a list option"
  page :: "PageInfo option"

type_synonym VeracodeProjectsResponse = "VeracodeProject VeracodePagedResponse"
type_synonym VeracodeLibrariesResponse = "VeracodeLibrary VeracodePagedResponse"
type_synonym VeracodeWorkspacesResponse = "VeracodeWorkspace VeracodePagedResponse"

text \<open>What a \<open>try\<close> block can catch, and what the table renderer can throw.\<close>

datatype error = AxiosError jsstring | TypeError | RangeError

section \<open>fetchAllThreatPackages\<close>

text \<open>
  The feed is a function \<open>get\<close> from the number of the request (\<open>requestCount\<close>) and the
  \<open>cursor\<close> query parameter (\<open>None\<close> for the URL without one) to the outcome of
  \<open>axios.get\<close>. The loop may run forever, so it is a partial function: \<open>None\<close> is "does
  not return". The result pairs the requests made, in order, with what the function
  returns (\<open>Inr\<close>) or throws (\<open>Inl\<close>).
\<close>

partial_function (option) threatLoop ::
  "(nat \<Rightarrow> cursor_value option \<Rightarrow> error + PhylumThreatFeedResponse) \<Rightarrow>
   PhylumThreatPackage list \<Rightarrow> cursor_value option \<Rightarrow> nat \<Rightarrow> cursor_value option list \<Rightarrow>
   (cursor_value option list \<times> (error + PhylumThreatPackage list)) option" where
  "threatLoop get allPackages cur requestCount requests =
     (let requestCount' = requestCount + 1;
          url = (if truthy cur then cur else None)
      in case get requestCount' url of
           Inl e \<Rightarrow> Some (requests @ [url], Inl e)
         | Inr response \<Rightarrow>
             (let allPackages' = allPackages @ packages response
              in if truthy (cursor response)
                 then threatLoop get allPackages' (cursor response) requestCount' (requests @ [url])
                 else Some (requests @ [url], Inr allPackages')))"

definition fetchAllThreatPackages ::
  "(nat \<Rightarrow> cursor_value option \<Rightarrow> error + PhylumThreatFeedResponse) \<Rightarrow>
   (cursor_value option list \<times> (error + PhylumThreatPackage list)) option" where
  "fetchAllThreatPackages get = threatLoop get [] None 0 []"

section \<open>fetchAllWorkspaces\<close>

text \<open>
  One request to \<open>/srcclr/v3/workspaces\<close>, which carries no \<open>page\<close> parameter (\<open>None\<close>).
  \<open>response.data._embedded.workspaces\<close> is read without \<open>?.\<close>: when it is missing the
  \<open>TypeError\<close> is caught and rethrown like a failed request.
\<close>

definition fetchAllWorkspaces ::
  "(nat option \<Rightarrow> error + VeracodeWorkspacesResponse) \<Rightarrow>
   nat option list \<times> (error + VeracodeWorkspace list)" where
  "fetchAllWorkspaces get =
     (case get None of
        Inl e \<Rightarrow> ([None], Inl e)
      | Inr response \<Rightarrow>
          (case embedded response of
             None \<Rightarrow> ([None], Inl TypeError)
           | Some workspaces \<Rightarrow> ([None], Inr workspaces)))"

section \<open>fetchProjectsForWorkspace and fetchLibrariesForProject\<close>

text \<open>\<open>x || 0\<close> on an optional number.\<close>

fun orZero :: "int option \<Rightarrow> int" where
  "orZero None = 0"
| "orZero (Some n) = n"

text \<open>\<open>response.data.page?.totalPages || 0\<close> and \<open>response.data.page?.number || 0\<close>.\<close>

definition totalPagesOf :: "'a VeracodePagedResponse \<Rightarrow> int" where
  "totalPagesOf response = (case page response of None \<Rightarrow> 0 | Some p \<Rightarrow> orZero (totalPages p))"

definition currentPageOf :: "'a VeracodePagedResponse \<Rightarrow> int" where
  "currentPageOf response = (case page response of None \<Rightarrow> 0 | Some p \<Rightarrow> orZero (number p))"

text \<open>The items a response contributes: \<open>push\<close> is skipped when the array is undefined.\<close>

definition itemsOf :: "'a VeracodePagedResponse \<Rightarrow> 'a list" where
  "itemsOf response = (case embedded response of None \<Rightarrow> [] | Some xs \<Rightarrow> xs)"

text \<open>
  The two \<open>while (hasMore)\<close> loops are the same code up to the URL and the name of the
  embedded array; \<open>pagedLoop\<close> is that loop, over the function \<open>get\<close> from the \<open>page\<close>
  parameter to the outcome of \<open>axios.get\<close>. \<open>requests\<close> lists the page indices
  requested so far (its length is \<open>requestCount\<close>). Both functions catch every error,
  so the result is the requests made and the array returned.
\<close>

partial_function (option) pagedLoop ::
  "(nat \<Rightarrow> error + 'a VeracodePagedResponse) \<Rightarrow> 'a list \<Rightarrow> nat \<Rightarrow> nat list \<Rightarrow>
   (nat list \<times> 'a list) option" where
  "pagedLoop get allItems pg requests =
     (case get pg of
        Inl e \<Rightarrow>
          if pg = 0 then Some (requests @ [pg], [])
          else Some (requests @ [pg], allItems)
      | Inr response \<Rightarrow>
          (let allItems' = allItems @ itemsOf response
           in if currentPageOf response < totalPagesOf response - 1
              then pagedLoop get allItems' (pg + 1) (requests @ [pg])
              else Some (requests @ [pg], allItems')))"

definition fetchProjectsForWorkspace ::
  "(jsstring \<times> nat \<Rightarrow> error + VeracodeProjectsResponse) \<Rightarrow> jsstring \<Rightarrow>
   (nat list \<times> VeracodeProject list) option" where
  "fetchProjectsForWorkspace get workspaceId =
     pagedLoop (\<lambda>pg. get (workspaceId, pg)) [] 0 []"

definition fetchLibrariesForProject ::
  "(jsstring \<times> jsstring \<times> nat \<Rightarrow> error + VeracodeLibrariesResponse) \<Rightarrow> jsstring \<Rightarrow> jsstring \<Rightarrow>
   (nat list \<times> VeracodeLibrary list) option" where
  "fetchLibrariesForProject get workspaceId projectId =
     pagedLoop (\<lambda>pg. get (workspaceId, projectId, pg)) [] 0 []"

section \<open>findVulnerableMatches\<close>

definition isMatch :: "PhylumThreatPackage \<Rightarrow> InventoryTriple \<Rightarrow> bool" where
  "isMatch threatPackage t \<longleftrightarrow>
     name threatPackage = lib_name (library t) \<and> version threatPackage = lib_version (library t)"

definition mkMatch :: "PhylumThreatPackage \<Rightarrow> InventoryTriple \<Rightarrow> VulnerableMatch" where
  "mkMatch threatPackage t =
     \<lparr>match_threatPackage = threatPackage, match_library = library t,
      match_project = project t, match_workspace = workspace t\<rparr>"

text \<open>
  The two nested \<open>for ... of\<close> loops, each a left fold that threads the \<open>matches\<close>
  array; \<open>push\<close> appends at the end.
\<close>

definition findVulnerableMatches ::
  "PhylumThreatPackage list \<Rightarrow> InventoryTriple list \<Rightarrow> VulnerableMatch list" where
  "findVulnerableMatches threatPackages allLibraries =
     foldl (\<lambda>matches threatPackage.
        foldl (\<lambda>matches t.
           if isMatch threatPackage t then matches @ [mkMatch threatPackage t] else matches)
          matches allLibraries)
       [] threatPackages"

section \<open>Dates\<close>

text \<open>
  A time value is a number of milliseconds since 1970-01-01T00:00:00Z. \<open>new Date(s)\<close>
  for a string \<open>s\<close> holds \<open>Date.parse(s)\<close>, which is a time value or \<open>NaN\<close>; apart from
  the ISO format the accepted strings are left to the platform, so \<open>Date.parse\<close> is a
  parameter \<open>parse\<close> of the model, with \<open>None\<close> for \<open>NaN\<close> (an invalid date).

  \<open>civil\<close> is the proleptic Gregorian date (year, month, day) of a day number, the
  date \<open>YearFromTime\<close>, \<open>MonthFromTime\<close> and \<open>DateFromTime\<close> yield.
\<close>

definition civil :: "int \<Rightarrow> int \<times> int \<times> int" where
  "civil days =
     (let z = days + 719468;
          era = z div 146097;
          doe = z mod 146097;
          yoe = (doe - doe div 1460 + doe div 36524 - doe div 146096) div 365;
          doy = doe - (365 * yoe + yoe div 4 - yoe div 100);
          mp = (5 * doy + 2) div 153;
          d = doy - (153 * mp + 2) div 5 + 1;
          m = (if mp < 10 then mp + 3 else mp - 9)
      in (yoe + era * 400 + (if m \<le> 2 then 1 else 0), m, d))"

definition zeroPad :: "nat \<Rightarrow> nat \<Rightarrow> jsstring" where
  "zeroPad width n = replicate (width - length (toString n)) 48 @ toString n"

text \<open>Years outside 0..9999 are written as expanded years: a sign and six digits.\<close>

definition isoYear :: "int \<Rightarrow> jsstring" where
  "isoYear y =
     (if 0 \<le> y \<and> y \<le> 9999 then zeroPad 4 (nat y)
      else (if y < 0 then str ''-'' else str ''+'') @ zeroPad 6 (nat \<bar>y\<bar>))"

text \<open>\<open>Date.prototype.toISOString\<close> on a valid date: \<open>YYYY-MM-DDTHH:mm:ss.sssZ\<close>.\<close>

definition toISOString :: "int \<Rightarrow> jsstring" where
  "toISOString t =
     (case civil (t div 86400000) of (y, m, d) \<Rightarrow>
        (let ms = t mod 86400000
         in isoYear y @ str ''-'' @ zeroPad 2 (nat m) @ str ''-'' @ zeroPad 2 (nat d) @
            str ''T'' @ zeroPad 2 (nat (ms div 3600000)) @ str '':'' @
            zeroPad 2 (nat (ms div 60000 mod 60)) @ str '':'' @
            zeroPad 2 (nat (ms div 1000 mod 60)) @ str ''.'' @
            zeroPad 3 (nat (ms mod 1000)) @ str ''Z''))"

text \<open>
  \<open>new Date(pkg.created).toISOString().split('T')[0]\<close>: \<open>toISOString\<close> throws a
  \<open>RangeError\<close> on an invalid date; the first piece of the split is what precedes the
  first \<open>T\<close>.
\<close>

definition dateAdded :: "(jsstring \<Rightarrow> int option) \<Rightarrow> PhylumThreatPackage \<Rightarrow> error + jsstring" where
  "dateAdded parse pkg =
     (case parse (created pkg) of
        None \<Rightarrow> Inl RangeError
      | Some t \<Rightarrow> Inr (takeWhile (\<lambda>c. c \<noteq> 84) (toISOString t)))"

text \<open>The date cell of a package whose \<open>created\<close> is a valid date.\<close>

definition dateOf :: "(jsstring \<Rightarrow> int option) \<Rightarrow> PhylumThreatPackage \<Rightarrow> jsstring" where
  "dateOf parse pkg = takeWhile (\<lambda>c. c \<noteq> 84) (toISOString (the (parse (created pkg))))"

text \<open>The code units an ISO string is made of: digits, signs and the four separators.\<close>

definition isoChars :: "16 word set" where
  "isoChars = {48, 49, 50, 51, 52, 53, 54, 55, 56, 57, 43, 45, 46, 58, 84, 90}"

section \<open>Array.prototype.sort\<close>

text \<open>
  The comparator \<open>(a, b) => new Date(b.created).getTime() - new Date(a.created).getTime()\<close>.
  With an invalid date the difference is \<open>NaN\<close>, which \<open>sort\<close> reads as \<open>+0\<close>.
\<close>

definition compareCreated ::
  "(jsstring \<Rightarrow> int option) \<Rightarrow> PhylumThreatPackage \<Rightarrow> PhylumThreatPackage \<Rightarrow> int" where
  "compareCreated parse a b =
     (case (parse (created b), parse (created a)) of
        (Some tb, Some ta) \<Rightarrow> tb - ta
      | _ \<Rightarrow> 0)"

text \<open>
  \<open>sort\<close> is stable. With a consistent comparator, as here when every date is valid,
  stability fixes the resulting order, so every conforming engine computes what this
  insertion sort computes; otherwise the order is implementation-defined and the model
  shows one possible outcome, always a permutation.
\<close>

fun insertSorted :: "('a \<Rightarrow> 'a \<Rightarrow> int) \<Rightarrow> 'a \<Rightarrow> 'a list \<Rightarrow> 'a list" where
  "insertSorted cmp x [] = [x]"
| "insertSorted cmp x (y # ys) =
     (if cmp x y \<le> 0 then x # y # ys else y # insertSorted cmp x ys)"

definition arraySort :: "('a \<Rightarrow> 'a \<Rightarrow> int) \<Rightarrow> 'a list \<Rightarrow> 'a list" where
  "arraySort cmp xs = foldr (insertSorted cmp) xs []"

section \<open>The store of arrays\<close>

text \<open>
  Arrays are objects: \<open>sort\<close> reorders the array it is called on, and a caller that
  holds a reference to it sees the change. The store is the list of the arrays allocated
  so far and a reference is an index into it. \<open>[...a]\<close> allocates a new array with the
  elements of \<open>a\<close>; \<open>sort\<close> overwrites the array it is given and returns the same
  reference.
\<close>

type_synonym ref = nat
type_synonym heap = "PhylumThreatPackage list list"

definition spread :: "heap \<Rightarrow> ref \<Rightarrow> heap \<times> ref" where
  "spread h a = (h @ [h ! a], length h)"

definition sortInPlace ::
  "(PhylumThreatPackage \<Rightarrow> PhylumThreatPackage \<Rightarrow> int) \<Rightarrow> heap \<Rightarrow> ref \<Rightarrow> heap \<times> ref" where
  "sortInPlace cmp h a = (h[a := arraySort cmp (h ! a)], a)"

section \<open>generateMaliciousPackagesTable\<close>

text \<open>The lines written before the branch on \<open>threatPackages.length\<close>; \<open>now\<close> is \<open>new Date()\<close>.\<close>

definition tableHeading :: "int \<Rightarrow> nat \<Rightarrow> jsstring" where
  "tableHeading now n =
     str ''MALICIOUS PACKAGES FROM THREAT FEED\<newline>'' @
     str ''=====================================\<newline>\<newline>'' @
     str ''Generated: '' @ toISOString now @ str ''\<newline>'' @
     str ''Total packages in threat feed: '' @ toString n @ str ''\<newline>\<newline>''"

text \<open>
  The first \<open>forEach\<close>: the four running maxima \<open>maxDateLength\<close>, \<open>maxEcosystemLength\<close>,
  \<open>maxPackageNameLength\<close>, \<open>maxVersionLength\<close>. An exception leaves the loop.
\<close>

fun maxLengths ::
  "(jsstring \<Rightarrow> int option) \<Rightarrow> PhylumThreatPackage list \<Rightarrow> nat \<times> nat \<times> nat \<times> nat \<Rightarrow>
   error + nat \<times> nat \<times> nat \<times> nat" where
  "maxLengths parse [] w = Inr w"
| "maxLengths parse (pkg # pkgs) (maxDateLength, maxEcosystemLength, maxPackageNameLength, maxVersionLength) =
     (case dateAdded parse pkg of
        Inl e \<Rightarrow> Inl e
      | Inr d \<Rightarrow>
          maxLengths parse pkgs
            (max maxDateLength (length d),
             max maxEcosystemLength (length (orUnknown (ecosystem pkg))),
             max maxPackageNameLength (length (orUnknown (name pkg))),
             max maxVersionLength (length (orUnknown (version pkg)))))"

definition tableHeader :: "nat \<times> nat \<times> nat \<times> nat \<Rightarrow> jsstring" where
  "tableHeader w =
     (case w of (maxDateLength, maxEcosystemLength, maxPackageNameLength, maxVersionLength) \<Rightarrow>
        str ''| '' @ padEnd (str ''Date Added'') maxDateLength @ str '' | '' @
        padEnd (str ''Ecosystem'') maxEcosystemLength @ str '' | '' @
        padEnd (str ''Package Name'') maxPackageNameLength @ str '' | '' @
        padEnd (str ''Package Version'') maxVersionLength @ str '' |\<newline>'')"

definition tableSeparator :: "nat \<times> nat \<times> nat \<times> nat \<Rightarrow> jsstring" where
  "tableSeparator w =
     (case w of (maxDateLength, maxEcosystemLength, maxPackageNameLength, maxVersionLength) \<Rightarrow>
        str ''|'' @ repeat_dash (maxDateLength + 2) @ str ''|'' @
        repeat_dash (maxEcosystemLength + 2) @ str ''|'' @
        repeat_dash (maxPackageNameLength + 2) @ str ''|'' @
        repeat_dash (maxVersionLength + 2) @ str ''|\<newline>'')"

text \<open>The second \<open>forEach\<close>: one row per package, appended to \<open>table\<close>.\<close>

fun tableRows ::
  "(jsstring \<Rightarrow> int option) \<Rightarrow> nat \<times> nat \<times> nat \<times> nat \<Rightarrow> PhylumThreatPackage list \<Rightarrow> jsstring \<Rightarrow>
   error + jsstring" where
  "tableRows parse w [] table = Inr table"
| "tableRows parse w (pkg # pkgs) table =
     (case w of (maxDateLength, maxEcosystemLength, maxPackageNameLength, maxVersionLength) \<Rightarrow>
        (case dateAdded parse pkg of
           Inl e \<Rightarrow> Inl e
         | Inr d \<Rightarrow>
             tableRows parse w pkgs
               (table @ str ''| '' @ padEnd d maxDateLength @ str '' | '' @
                padEnd (orUnknown (ecosystem pkg)) maxEcosystemLength @ str '' | '' @
                padEnd (orUnknown (name pkg)) maxPackageNameLength @ str '' | '' @
                padEnd (orUnknown (version pkg)) maxVersionLength @ str '' |\<newline>'')))"

definition tableNote :: jsstring where
  "tableNote =
     str ''\<newline>'' @
     str ''Note: This table contains all packages from the Phylum threat feed.\<newline>'' @
     str ''Packages that match your project libraries are highlighted in the summary.txt file.\<newline>''"

text \<open>
  The function takes the store and the reference \<open>threatPackages\<close> and returns the store
  it leaves behind with the text returned (\<open>Inr\<close>) or the exception thrown (\<open>Inl\<close>).
\<close>

definition generateMaliciousPackagesTable ::
  "(jsstring \<Rightarrow> int option) \<Rightarrow> int \<Rightarrow> heap \<Rightarrow> ref \<Rightarrow> heap \<times> (error + jsstring)" where
  "generateMaliciousPackagesTable parse now h threatPackages =
     (let table = tableHeading now (length (h ! threatPackages))
      in if length (h ! threatPackages) = 0
         then (h, Inr (table @ str ''No packages found in threat feed.\<newline>''))
         else
           (case spread h threatPackages of (h1, copy) \<Rightarrow>
            case sortInPlace (compareCreated parse) h1 copy of (h2, sortedPackages) \<Rightarrow>
              (h2,
               case maxLengths parse (h2 ! sortedPackages) (10, 9, 12, 15) of
                 Inl e \<Rightarrow> Inl e
               | Inr w \<Rightarrow>
                   (case tableRows parse w (h2 ! sortedPackages)
                           (table @ tableHeader w @ tableSeparator w) of
                      Inl e \<Rightarrow> Inl e
                    | Inr table' \<Rightarrow> Inr (table' @ tableNote)))))"

section \<open>generateSummary\<close>

text \<open>
  The check mark is U+2705, the siren U+1F6A8 (a surrogate pair) and the warning sign
  U+26A0 followed by the variation selector U+FE0F.
\<close>

definition summaryHeading :: "int \<Rightarrow> nat \<Rightarrow> jsstring" where
  "summaryHeading now n =
     str ''THREAT FEED SECURITY ALERT SUMMARY\<newline>'' @
     str ''=====================================\<newline>\<newline>'' @
     str ''Generated: '' @ toISOString now @ str ''\<newline>'' @
     str ''Total vulnerable packages found: '' @ toString n @ str ''\<newline>\<newline>''"

definition cleanMessage :: jsstring where
  "cleanMessage =
     [0x2705] @ str '' No vulnerable packages found in your projects.\<newline>'' @
     str ''All packages in your Veracode SCA projects are clean.\<newline>''"

definition matchBlock :: "nat \<Rightarrow> VulnerableMatch \<Rightarrow> jsstring" where
  "matchBlock index m =
     toString (index + 1) @ str ''. Package: '' @ name (match_threatPackage m) @ str ''@'' @
       version (match_threatPackage m) @ str ''\<newline>'' @
     str ''   Ecosystem: '' @ ecosystem (match_threatPackage m) @ str ''\<newline>'' @
     str ''   Threat Indicators: '' @ join (str '', '') (indicators (match_threatPackage m)) @
       str ''\<newline>'' @
     str ''   Workspace: '' @ ws_name (match_workspace m) @ str '' ('' @
       ws_id (match_workspace m) @ str '')\<newline>'' @
     str ''   Project: '' @ proj_name (match_project m) @ str '' ('' @
       proj_id (match_project m) @ str '')\<newline>'' @
     str ''   Library ID: '' @ lib_id (match_library m) @ str ''\<newline>'' @
     str ''   Library License: '' @ lib_license (match_library m) @ str ''\<newline>'' @
     str ''   Threat Created: '' @ created (match_threatPackage m) @ str ''\<newline>'' @
     str ''   Library Vulnerabilities: '' @
       toString (length (lib_vulnerabilities (match_library m))) @ str ''\<newline>'' @
     str ''\<newline>''"

definition actionRequired :: jsstring where
  "actionRequired =
     str ''\<newline>'' @ [0x26A0, 0xFE0F] @ str ''  ACTION REQUIRED:\<newline>'' @
     str ''1. Review the above packages immediately\<newline>'' @
     str ''2. Update or remove vulnerable packages\<newline>'' @
     str ''3. Check for alternative secure packages\<newline>'' @
     str ''4. Run security scans on affected projects\<newline>''"

definition generateSummary :: "int \<Rightarrow> VulnerableMatch list \<Rightarrow> jsstring" where
  "generateSummary now matches =
     (let summary = summaryHeading now (length matches)
      in if length matches = 0 then summary @ cleanMessage
         else
           foldl (\<lambda>summary (index, m). summary @ matchBlock index m)
             (summary @ [0xD83D, 0xDEA8] @ str '' IMMEDIATE ATTENTION REQUIRED!\<newline>'' @
              str ''The following packages in your projects match known threats:\<newline>\<newline>'')
             (zip [0..<length matches] matches)
           @ actionRequired)"

section \<open>Sample data\<close>

definition pkgA :: PhylumThreatPackage where
  "pkgA = \<lparr>created = str ''2024-01-01'', ecosystem = str ''npm'', hashes = None,
            indicators = [str ''malware''], name = str ''left-pad'', version = str ''1.0''\<rparr>"

definition pkgB :: PhylumThreatPackage where
  "pkgB = \<lparr>created = str ''2023-06-15'', ecosystem = [], hashes = None,
            indicators = [], name = str ''a-very-long-package-name'', version = []\<rparr>"

definition pkgC :: PhylumThreatPackage where
  "pkgC = \<lparr>created = str ''2024-06-01'', ecosystem = str ''pypi'', hashes = None,
            indicators = [], name = str ''x'', version = str ''2.0.0''\<rparr>"

text \<open>A \<open>Date.parse\<close> that knows the three dates above (UTC midnight) and nothing else.\<close>

definition sampleParse :: "jsstring \<Rightarrow> int option" where
  "sampleParse s =
     (if s = str ''2024-01-01'' then Some 1704067200000
      else if s = str ''2023-06-15'' then Some 1686787200000
      else if s = str ''2024-06-01'' then Some 1717200000000
      else None)"

definition feedPage1 :: PhylumThreatFeedResponse where
  "feedPage1 = \<lparr>has_next = True, has_previous = False, packages = [pkgA, pkgB],
                 cursor = Some (CursorNumber 50)\<rparr>"

definition feedPage2 :: "cursor_value option \<Rightarrow> PhylumThreatFeedResponse" where
  "feedPage2 c = \<lparr>has_next = False, has_previous = True, packages = [pkgC], cursor = c\<rparr>"

definition sampleFeed ::
  "cursor_value option \<Rightarrow> nat \<Rightarrow> cursor_value option \<Rightarrow> error + PhylumThreatFeedResponse" where
  "sampleFeed final k c =
     (if c = None then Inr feedPage1
      else if c = Some (CursorNumber 50) then Inr (feedPage2 final)
      else Inl (AxiosError (str ''Request failed with status code 400'')))"

definition failingFeed :: "nat \<Rightarrow> cursor_value option \<Rightarrow> error + PhylumThreatFeedResponse" where
  "failingFeed k c =
     (if c = None then Inr feedPage1 else Inl (AxiosError (str ''timeout of 30000ms exceeded'')))"

definition wsA :: VeracodeWorkspace where
  "wsA = \<lparr>ws_id = str ''ws-1'', ws_name = str ''Alpha'', ws_created = [], ws_lastUpdated = []\<rparr>"

definition wsB :: VeracodeWorkspace where
  "wsB = \<lparr>ws_id = str ''ws-2'', ws_name = str ''Beta'', ws_created = [], ws_lastUpdated = []\<rparr>"

definition projN :: "string \<Rightarrow> VeracodeProject" where
  "projN n = \<lparr>proj_id = str n, proj_name = str n, proj_workspaceId = str ''ws-1'',
              proj_created = [], proj_lastUpdated = []\<rparr>"

definition libN :: "string \<Rightarrow> string \<Rightarrow> VeracodeLibrary" where
  "libN n v = \<lparr>lib_id = str n, lib_name = str n, lib_version = str v, lib_ecosystem = str ''npm'',
               lib_license = str ''MIT'', lib_vulnerabilities = []\<rparr>"

text \<open>
  A well-behaved page-number source over the pages \<open>pages\<close>, except that the request for
  page \<open>failAt\<close> fails.
\<close>

definition sampleResponse :: "'a list list \<Rightarrow> nat \<Rightarrow> 'a VeracodePagedResponse" where
  "sampleResponse pages pg =
     \<lparr>embedded = Some (pages ! pg),
      page = Some \<lparr>page_size = Some 100,
                   totalElements = Some (int (length (concat pages))),
                   totalPages = Some (int (length pages)),
                   number = Some (int pg)\<rparr>\<rparr>"

definition samplePages :: "'a list list \<Rightarrow> nat \<Rightarrow> nat \<Rightarrow> error + 'a VeracodePagedResponse" where
  "samplePages pages failAt pg =
     (if pg = failAt \<or> length pages \<le> pg
      then Inl (AxiosError (str ''Request failed with status code 500''))
      else Inr (sampleResponse pages pg))"

text \<open>A source that answers every request with the same items and no \<open>page\<close> object.\<close>

definition barePage :: "'a list \<Rightarrow> nat \<Rightarrow> error + 'a VeracodePagedResponse" where
  "barePage items pg = Inr \<lparr>embedded = Some items, page = None\<rparr>"

text \<open>The workspaces endpoint: without a \<open>page\<close> parameter it serves page 0.\<close>

definition sampleWorkspaces :: "nat option \<Rightarrow> error + VeracodeWorkspacesResponse" where
  "sampleWorkspaces param =
     samplePages [[wsA], [wsB]] 2 (case param of None \<Rightarrow> 0 | Some pg \<Rightarrow> pg)"

text \<open>
  A source over \<open>pages\<close> that reports \<open>totalPages = reported\<close> in every response and
  \<open>number = num pg\<close> in the response to the request for page \<open>pg\<close>; beyond the last
  page it answers with an empty array.
\<close>

definition reportingPages ::
  "'a list list \<Rightarrow> int \<Rightarrow> (nat \<Rightarrow> int option) \<Rightarrow> nat \<Rightarrow> error + 'a VeracodePagedResponse" where
  "reportingPages pages reported num pg =
     Inr \<lparr>embedded = Some (if pg < length pages then pages ! pg else []),
          page = Some \<lparr>page_size = Some 100,
                       totalElements = Some (int (length (concat pages))),
                       totalPages = Some reported,
                       number = num pg\<rparr>\<rparr>"

text \<open>Two pages of projects; the response for page 1 carries no \<open>number\<close>.\<close>

definition unechoedProjects :: "jsstring \<times> nat \<Rightarrow> error + VeracodeProjectsResponse" where
  "unechoedProjects req =
     reportingPages [[projN ''p1''], [projN ''p2'']] 2
       (\<lambda>pg. if pg = 1 then None else Some (int pg)) (snd req)"

text \<open>Three pages of libraries; the source counts its pages from 1.\<close>

definition oneBasedLibraries ::
  "jsstring \<times> jsstring \<times> nat \<Rightarrow> error + VeracodeLibrariesResponse" where
  "oneBasedLibraries req =
     reportingPages [[libN ''a'' ''1.0''], [libN ''b'' ''2.0''], [libN ''c'' ''3.0'']] 3
       (\<lambda>pg. Some (int pg + 1)) (snd (snd req))"

text \<open>One page of projects with \<open>totalPages = 0\<close> and the page number -5.\<close>

definition negativeNumberProjects :: "jsstring \<times> nat \<Rightarrow> error + VeracodeProjectsResponse" where
  "negativeNumberProjects req =
     reportingPages [[projN ''p1'']] 0 (\<lambda>pg. if pg = 0 then Some (- 5) else Some (int pg)) (snd req)"

text \<open>An inventory triple of project \<open>p\<close> in the sample workspace.\<close>

definition tripleOf :: "VeracodeLibrary \<Rightarrow> string \<Rightarrow> InventoryTriple" where
  "tripleOf l p = \<lparr>library = l, project = projN p, workspace = wsA\<rparr>"

section \<open>Properties of findVulnerableMatches\<close>

lemma inner_loop_filter:
  "foldl (\<lambda>matches t. if isMatch p t then matches @ [mkMatch p t] else matches) acc ts =
     acc @ map (mkMatch p) (filter (isMatch p) ts)"
  by (induction ts arbitrary: acc) simp_all

lemma outer_loop_concat:
  "foldl (\<lambda>matches p.
      foldl (\<lambda>matches t. if isMatch p t then matches @ [mkMatch p t] else matches) matches ts)
     acc ps =
   acc @ concat (map (\<lambda>p. map (mkMatch p) (filter (isMatch p) ts)) ps)"
  by (induction ps arbitrary: acc) (simp_all add: inner_loop_filter)

lemma findVulnerableMatches_comprehension:
  "findVulnerableMatches ps ts = concat (map (\<lambda>p. map (mkMatch p) (filter (isMatch p) ts)) ps)"
  by (simp add: findVulnerableMatches_def outer_loop_concat)

lemma product_filter_map:
  "map (\<lambda>(i, j). f (g i) (h j)) (filter (\<lambda>(i, j). P (g i) (h j)) (List.product is js)) =
     concat (map (\<lambda>p. map (f p) (filter (P p) (map h js))) (map g is))"
  by (induction "is") (simp_all add: filter_map comp_def)

text \<open>
  C2. The result of \<open>findVulnerableMatches\<close> is read off the position pairs \<open>(i, j)\<close> of
  threat list and inventory, enumerated with the threat index outermost and the inventory
  index innermost: exactly the pairs whose names and versions are equal code-unit
  sequences are kept, and each of them gives one match, made of the threat at \<open>i\<close> and
  the library, project and workspace of the triple at \<open>j\<close>; repeated threats and repeated
  triples are counted per occurrence.
\<close>

theorem findVulnerableMatches_pairs:
  "findVulnerableMatches threatPackages allLibraries =
     map (\<lambda>(i, j).
          \<lparr>match_threatPackage = threatPackages ! i,
           match_library = library (allLibraries ! j),
           match_project = project (allLibraries ! j),
           match_workspace = workspace (allLibraries ! j)\<rparr>)
       (filter (\<lambda>(i, j).
            name (threatPackages ! i) = lib_name (library (allLibraries ! j)) \<and>
            version (threatPackages ! i) = lib_version (library (allLibraries ! j)))
          (List.product [0..<length threatPackages] [0..<length allLibraries]))"
proof -
  have "map (\<lambda>(i, j). mkMatch (threatPackages ! i) (allLibraries ! j))
          (filter (\<lambda>(i, j). isMatch (threatPackages ! i) (allLibraries ! j))
             (List.product [0..<length threatPackages] [0..<length allLibraries])) =
        concat (map (\<lambda>p. map (mkMatch p) (filter (isMatch p)
            (map ((!) allLibraries) [0..<length allLibraries])))
          (map ((!) threatPackages) [0..<length threatPackages]))"
    by (rule product_filter_map)
  then have "findVulnerableMatches threatPackages allLibraries =
      map (\<lambda>(i, j). mkMatch (threatPackages ! i) (allLibraries ! j))
          (filter (\<lambda>(i, j). isMatch (threatPackages ! i) (allLibraries ! j))
             (List.product [0..<length threatPackages] [0..<length allLibraries]))"
    by (simp add: findVulnerableMatches_comprehension map_nth)
  then show ?thesis
    by (simp add: isMatch_def mkMatch_def)
qed

text \<open>
  Two threats and four triples: the library in two projects matches the first threat twice;
  a name in another case, a longer version string and the second threat match nothing.
\<close>

theorem findVulnerableMatches_pairs_witness:
  "findVulnerableMatches [pkgA, pkgA\<lparr>version := str ''2.0''\<rparr>]
     [tripleOf (libN ''left-pad'' ''1.0'') ''p1'', tripleOf (libN ''Left-Pad'' ''1.0'') ''p1'',
      tripleOf (libN ''left-pad'' ''1.0.0'') ''p1'', tripleOf (libN ''left-pad'' ''1.0'') ''p2''] =
   [\<lparr>match_threatPackage = pkgA, match_library = libN ''left-pad'' ''1.0'',
     match_project = projN ''p1'', match_workspace = wsA\<rparr>,
    \<lparr>match_threatPackage = pkgA, match_library = libN ''left-pad'' ''1.0'',
     match_project = projN ''p2'', match_workspace = wsA\<rparr>]"
proof -
  have names: "name pkgA = str ''left-pad''" "version pkgA = str ''1.0''"
    "str ''left-pad'' \<noteq> str ''Left-Pad''" "str ''1.0'' \<noteq> str ''1.0.0''"
    "str ''2.0'' \<noteq> str ''1.0''" "str ''2.0'' \<noteq> str ''1.0.0''"
    by (simp_all add: pkgA_def str_def)
  show ?thesis
    using findVulnerableMatches_pairs [of "[pkgA, pkgA\<lparr>version := str ''2.0''\<rparr>]"
      "[tripleOf (libN ''left-pad'' ''1.0'') ''p1'', tripleOf (libN ''Left-Pad'' ''1.0'') ''p1'',
        tripleOf (libN ''left-pad'' ''1.0.0'') ''p1'', tripleOf (libN ''left-pad'' ''1.0'') ''p2'']"]
    by (simp add: tripleOf_def libN_def names upt_conv_Cons)
qed

section \<open>Properties of the page-number loop\<close>

lemma pagedLoop_fail:
  "get pg = Inl e \<Longrightarrow>
   pagedLoop get acc pg reqs = Some (reqs @ [pg], if pg = 0 then [] else acc)"
  by (subst pagedLoop.simps) simp

lemma pagedLoop_last:
  "get pg = Inr r \<Longrightarrow> \<not> currentPageOf r < totalPagesOf r - 1 \<Longrightarrow>
   pagedLoop get acc pg reqs = Some (reqs @ [pg], acc @ itemsOf r)"
  by (subst pagedLoop.simps) simp

lemma pagedLoop_step:
  "get pg = Inr r \<Longrightarrow> currentPageOf r < totalPagesOf r - 1 \<Longrightarrow>
   pagedLoop get acc pg reqs = pagedLoop get (acc @ itemsOf r) (Suc pg) (reqs @ [pg])"
  by (subst pagedLoop.simps) simp

lemma pagedLoop_run:
  assumes "\<And>i. pg \<le> i \<Longrightarrow> i < k \<Longrightarrow>
             get i = Inr (rs i) \<and> currentPageOf (rs i) < totalPagesOf (rs i) - 1"
    and "pg \<le> k"
  shows "pagedLoop get acc pg reqs =
           pagedLoop get (acc @ concat (map (\<lambda>i. itemsOf (rs i)) [pg..<k])) k (reqs @ [pg..<k])"
  using assms
proof (induction "k - pg" arbitrary: pg acc reqs)
  case 0
  then show ?case by simp
next
  case (Suc d)
  then have lt: "pg < k" by simp
  have here: "get pg = Inr (rs pg)" "currentPageOf (rs pg) < totalPagesOf (rs pg) - 1"
    using Suc.prems(1) [of pg] lt by simp_all
  have "pagedLoop get acc pg reqs = pagedLoop get (acc @ itemsOf (rs pg)) (Suc pg) (reqs @ [pg])"
    using here by (rule pagedLoop_step)
  also have "\<dots> = pagedLoop get ((acc @ itemsOf (rs pg)) @
        concat (map (\<lambda>i. itemsOf (rs i)) [Suc pg..<k])) k ((reqs @ [pg]) @ [Suc pg..<k])"
  proof (rule Suc.hyps(1))
    show "d = k - Suc pg" using Suc.hyps(2) by simp
    show "Suc pg \<le> k" using lt by simp
    show "get i = Inr (rs i) \<and> currentPageOf (rs i) < totalPagesOf (rs i) - 1"
      if "Suc pg \<le> i" "i < k" for i using Suc.prems(1) [of i] that by simp
  qed
  finally show ?case using lt by (simp add: upt_conv_Cons)
qed

lemma pagedLoop_complete:
  assumes "0 < n"
    and "\<forall>i<n. get i = Inr (rs i) \<and> totalPagesOf (rs i) = int n \<and> currentPageOf (rs i) = int i"
  shows "pagedLoop get [] 0 [] = Some ([0..<n], concat (map (\<lambda>i. itemsOf (rs i)) [0..<n]))"
proof -
  obtain k where n: "n = Suc k" using assms(1) by (cases n) simp_all
  have "pagedLoop get [] 0 [] =
          pagedLoop get ([] @ concat (map (\<lambda>i. itemsOf (rs i)) [0..<k])) k ([] @ [0..<k])"
  proof (rule pagedLoop_run)
    show "get i = Inr (rs i) \<and> currentPageOf (rs i) < totalPagesOf (rs i) - 1"
      if "0 \<le> i" "i < k" for i
      using assms(2) that by (simp add: n)
  qed simp
  also have "\<dots> = Some (([] @ [0..<k]) @ [k],
                       ([] @ concat (map (\<lambda>i. itemsOf (rs i)) [0..<k])) @ itemsOf (rs k))"
  proof (rule pagedLoop_last)
    show "get k = Inr (rs k)" using assms(2) by (simp add: n)
    show "\<not> currentPageOf (rs k) < totalPagesOf (rs k) - 1" using assms(2) by (simp add: n)
  qed
  finally show ?thesis by (simp add: n)
qed

lemma pagedLoop_single:
  assumes "get 0 = Inr r"
    and "case page r of None \<Rightarrow> True | Some p \<Rightarrow> totalPages p \<in> {None, Some 0}"
    and "0 \<le> currentPageOf r"
  shows "pagedLoop get [] 0 [] = Some ([0], itemsOf r)"
proof -
  have "totalPagesOf r = 0"
    using assms(2) by (auto simp: totalPagesOf_def split: option.splits)
  then have "\<not> currentPageOf r < totalPagesOf r - 1" using assms(3) by simp
  with assms(1) have "pagedLoop get [] 0 [] = Some ([] @ [0], [] @ itemsOf r)"
    by (rule pagedLoop_last)
  then show ?thesis by simp
qed

lemma pagedLoop_failure:
  assumes "\<forall>i<k. get i = Inr (rs i) \<and> currentPageOf (rs i) < totalPagesOf (rs i) - 1"
    and "get k = Inl e"
  shows "pagedLoop get [] 0 [] = Some ([0..<Suc k], concat (map (\<lambda>i. itemsOf (rs i)) [0..<k]))"
proof -
  have "pagedLoop get [] 0 [] =
          pagedLoop get ([] @ concat (map (\<lambda>i. itemsOf (rs i)) [0..<k])) k ([] @ [0..<k])"
  proof (rule pagedLoop_run)
    show "get i = Inr (rs i) \<and> currentPageOf (rs i) < totalPagesOf (rs i) - 1"
      if "0 \<le> i" "i < k" for i
      using assms(1) that by simp
  qed simp
  also have "\<dots> = Some (([] @ [0..<k]) @ [k],
      if k = 0 then [] else [] @ concat (map (\<lambda>i. itemsOf (rs i)) [0..<k]))"
    using assms(2) by (rule pagedLoop_fail)
  finally show ?thesis by simp
qed

text \<open>
  C6 (amended). The loop tests the page number the response reports, not the index it
  requested. For a source that answers page \<open>i\<close> of \<open>n\<close> with \<open>number = i\<close> and
  \<open>totalPages = n\<close>, \<open>fetchProjectsForWorkspace\<close> and \<open>fetchLibrariesForProject\<close> request
  the pages \<open>0, ..., n - 1\<close> in order, once each, and return their items concatenated in
  that order. When the first response has no \<open>page\<close> object, no \<open>totalPages\<close> or
  \<open>totalPages = 0\<close>, and reports no negative page number, exactly one request is made and
  its items, if any, are the result.
\<close>

theorem page_number_completeness:
  fixes getP :: "jsstring \<times> nat \<Rightarrow> error + VeracodeProjectsResponse"
    and getL :: "jsstring \<times> jsstring \<times> nat \<Rightarrow> error + VeracodeLibrariesResponse"
  shows
    "(0 < n \<and> (\<forall>i<n. getP (w, i) = Inr (ps i) \<and> totalPagesOf (ps i) = int n \<and>
                       currentPageOf (ps i) = int i) \<longrightarrow>
        fetchProjectsForWorkspace getP w =
          Some ([0..<n], concat (map (\<lambda>i. itemsOf (ps i)) [0..<n]))) \<and>
     (getP (w, 0) = Inr firstP \<and> 0 \<le> currentPageOf firstP \<and>
      (case page firstP of None \<Rightarrow> True | Some pi \<Rightarrow> totalPages pi \<in> {None, Some 0}) \<longrightarrow>
        fetchProjectsForWorkspace getP w = Some ([0], itemsOf firstP)) \<and>
     (0 < m \<and> (\<forall>i<m. getL (w, pr, i) = Inr (ls i) \<and> totalPagesOf (ls i) = int m \<and>
                       currentPageOf (ls i) = int i) \<longrightarrow>
        fetchLibrariesForProject getL w pr =
          Some ([0..<m], concat (map (\<lambda>i. itemsOf (ls i)) [0..<m]))) \<and>
     (getL (w, pr, 0) = Inr firstL \<and> 0 \<le> currentPageOf firstL \<and>
      (case page firstL of None \<Rightarrow> True | Some pi \<Rightarrow> totalPages pi \<in> {None, Some 0}) \<longrightarrow>
        fetchLibrariesForProject getL w pr = Some ([0], itemsOf firstL))"
  unfolding fetchProjectsForWorkspace_def fetchLibrariesForProject_def
  by (intro conjI impI; (elim conjE)?)
     (rule pagedLoop_complete pagedLoop_single; assumption)+

lemmas sample_simps =
  samplePages_def sampleResponse_def barePage_def totalPagesOf_def currentPageOf_def itemsOf_def
  All_less_Suc upt_conv_Cons

text \<open>Three pages of projects, two pages of libraries, and sources without a \<open>page\<close> object.\<close>

theorem page_number_completeness_witness:
  "fetchProjectsForWorkspace (\<lambda>(w, pg). samplePages [[projN ''p1'', projN ''p2''], [projN ''p3''], []] 3 pg)
       (str ''ws-1'') =
     Some ([0, 1, 2], [projN ''p1'', projN ''p2'', projN ''p3'']) \<and>
   fetchProjectsForWorkspace (\<lambda>(w, pg). barePage [projN ''p1''] pg) (str ''ws-1'') =
     Some ([0], [projN ''p1'']) \<and>
   fetchLibrariesForProject (\<lambda>(w, p, pg). samplePages [[libN ''a'' ''1.0''], [libN ''b'' ''2.0'']] 2 pg)
       (str ''ws-1'') (str ''p1'') =
     Some ([0, 1], [libN ''a'' ''1.0'', libN ''b'' ''2.0'']) \<and>
   fetchLibrariesForProject (\<lambda>(w, p, pg). barePage [libN ''a'' ''1.0''] pg) (str ''ws-1'') (str ''p1'') =
     Some ([0], [libN ''a'' ''1.0''])"
  using
    page_number_completeness [where n = 3 and w = "str ''ws-1''"
      and getP = "\<lambda>(w, pg). samplePages [[projN ''p1'', projN ''p2''], [projN ''p3''], []] 3 pg"
      and ps = "sampleResponse [[projN ''p1'', projN ''p2''], [projN ''p3''], []]"
      and m = 2 and pr = "str ''p1''"
      and getL = "\<lambda>(w, p, pg). samplePages [[libN ''a'' ''1.0''], [libN ''b'' ''2.0'']] 2 pg"
      and ls = "sampleResponse [[libN ''a'' ''1.0''], [libN ''b'' ''2.0'']]",
      THEN conjunct1]
    page_number_completeness [where n = 3 and w = "str ''ws-1''"
      and getP = "\<lambda>(w, pg). samplePages [[projN ''p1'', projN ''p2''], [projN ''p3''], []] 3 pg"
      and ps = "sampleResponse [[projN ''p1'', projN ''p2''], [projN ''p3''], []]"
      and m = 2 and pr = "str ''p1''"
      and getL = "\<lambda>(w, p, pg). samplePages [[libN ''a'' ''1.0''], [libN ''b'' ''2.0'']] 2 pg"
      and ls = "sampleResponse [[libN ''a'' ''1.0''], [libN ''b'' ''2.0'']]",
      THEN conjunct2, THEN conjunct2, THEN conjunct1]
    page_number_completeness [where w = "str ''ws-1''" and pr = "str ''p1''"
      and getP = "\<lambda>(w, pg). barePage [projN ''p1''] pg"
      and firstP = "\<lparr>embedded = Some [projN ''p1''], page = None\<rparr>"
      and getL = "\<lambda>(w, p, pg). barePage [libN ''a'' ''1.0''] pg"
      and firstL = "\<lparr>embedded = Some [libN ''a'' ''1.0''], page = None\<rparr>",
      THEN conjunct2, THEN conjunct1]
    page_number_completeness [where w = "str ''ws-1''" and pr = "str ''p1''"
      and getP = "\<lambda>(w, pg). barePage [projN ''p1''] pg"
      and firstP = "\<lparr>embedded = Some [projN ''p1''], page = None\<rparr>"
      and getL = "\<lambda>(w, p, pg). barePage [libN ''a'' ''1.0''] pg"
      and firstL = "\<lparr>embedded = Some [libN ''a'' ''1.0''], page = None\<rparr>",
      THEN conjunct2, THEN conjunct2, THEN conjunct2]
  by (simp add: sample_simps)

lemmas reporting_simps =
  reportingPages_def unechoedProjects_def oneBasedLibraries_def negativeNumberProjects_def
  totalPagesOf_def currentPageOf_def itemsOf_def

text \<open>
  C6 without the condition on the reported page number fails. Each of the three sources
  answers every request. The first reports \<open>totalPages = 2\<close> and omits
  \<open>number\<close> on page 1: three requests are made. The second reports \<open>totalPages = 3\<close> and
  numbers its pages from 1: two requests are made and the items of page 2 are missing. The
  third reports \<open>totalPages = 0\<close> and the page number -5: two requests are made.
\<close>

theorem page_number_completeness_counterexample:
  "map_sum id totalPagesOf (unechoedProjects (str ''ws-1'', 0)) = Inr 2 \<and>
   map_sum id totalPagesOf (unechoedProjects (str ''ws-1'', 1)) = Inr 2 \<and>
   fetchProjectsForWorkspace unechoedProjects (str ''ws-1'') =
     Some ([0, 1, 2], [projN ''p1'', projN ''p2'']) \<and>
   map_sum id totalPagesOf (oneBasedLibraries (str ''ws-1'', str ''p1'', 0)) = Inr 3 \<and>
   map_sum id itemsOf (oneBasedLibraries (str ''ws-1'', str ''p1'', 2)) = Inr [libN ''c'' ''3.0''] \<and>
   fetchLibrariesForProject oneBasedLibraries (str ''ws-1'') (str ''p1'') =
     Some ([0, 1], [libN ''a'' ''1.0'', libN ''b'' ''2.0'']) \<and>
   map_sum id totalPagesOf (negativeNumberProjects (str ''ws-1'', 0)) = Inr 0 \<and>
   fetchProjectsForWorkspace negativeNumberProjects (str ''ws-1'') =
     Some ([0, 1], [projN ''p1''])"
proof -
  have 1: "fetchProjectsForWorkspace unechoedProjects (str ''ws-1'') =
      Some ([0, 1, 2], [projN ''p1'', projN ''p2''])"
    unfolding fetchProjectsForWorkspace_def
    by (subst pagedLoop.simps, simp add: reporting_simps)+
  have 2: "fetchLibrariesForProject oneBasedLibraries (str ''ws-1'') (str ''p1'') =
      Some ([0, 1], [libN ''a'' ''1.0'', libN ''b'' ''2.0''])"
    unfolding fetchLibrariesForProject_def
    by (subst pagedLoop.simps, simp add: reporting_simps)+
  have 3: "fetchProjectsForWorkspace negativeNumberProjects (str ''ws-1'') =
      Some ([0, 1], [projN ''p1''])"
    unfolding fetchProjectsForWorkspace_def
    by (subst pagedLoop.simps, simp add: reporting_simps)+
  show ?thesis
    by (simp add: 1 2 3) (simp add: reporting_simps)
qed

text \<open>
  C3. In \<open>fetchProjectsForWorkspace\<close> and \<open>fetchLibrariesForProject\<close>, a failure of the
  request for page 0 gives the empty list; a failure of the request for a later page \<open>k\<close>,
  reached because the pages before it succeeded and announced more pages, gives exactly
  the items of the pages \<open>0, ..., k - 1\<close>, in order. No error is propagated.
\<close>

theorem page_failure_policy:
  fixes getP :: "jsstring \<times> nat \<Rightarrow> error + VeracodeProjectsResponse"
    and getL :: "jsstring \<times> jsstring \<times> nat \<Rightarrow> error + VeracodeLibrariesResponse"
  shows
    "(getP (w, 0) = Inl e \<longrightarrow> fetchProjectsForWorkspace getP w = Some ([0], [])) \<and>
     (0 < k \<and> (\<forall>i<k. getP (w, i) = Inr (ps i) \<and>
                       currentPageOf (ps i) < totalPagesOf (ps i) - 1) \<and>
      getP (w, k) = Inl e \<longrightarrow>
        fetchProjectsForWorkspace getP w =
          Some ([0..<Suc k], concat (map (\<lambda>i. itemsOf (ps i)) [0..<k]))) \<and>
     (getL (w, pr, 0) = Inl e \<longrightarrow> fetchLibrariesForProject getL w pr = Some ([0], [])) \<and>
     (0 < k \<and> (\<forall>i<k. getL (w, pr, i) = Inr (ls i) \<and>
                       currentPageOf (ls i) < totalPagesOf (ls i) - 1) \<and>
      getL (w, pr, k) = Inl e \<longrightarrow>
        fetchLibrariesForProject getL w pr =
          Some ([0..<Suc k], concat (map (\<lambda>i. itemsOf (ls i)) [0..<k])))"
proof -
  have first: "pagedLoop get [] 0 [] = Some ([0], [])" if "get 0 = Inl e"
    for get :: "nat \<Rightarrow> error + 'a VeracodePagedResponse"
    using pagedLoop_fail [of get 0 e "[]" "[]"] that by simp
  show ?thesis
    unfolding fetchProjectsForWorkspace_def fetchLibrariesForProject_def
    by (intro conjI impI; (elim conjE)?)
       (rule first pagedLoop_failure; assumption)+
qed

text \<open>Sources that fail at page 0, at page 1 of three and at page 2 of three.\<close>

theorem page_failure_policy_witness:
  "fetchProjectsForWorkspace (\<lambda>(w, pg). samplePages [[projN ''p1'', projN ''p2''], [projN ''p3''], []] 0 pg)
       (str ''ws-1'') = Some ([0], []) \<and>
   fetchProjectsForWorkspace (\<lambda>(w, pg). samplePages [[projN ''p1'', projN ''p2''], [projN ''p3''], []] 1 pg)
       (str ''ws-1'') = Some ([0, 1], [projN ''p1'', projN ''p2'']) \<and>
   fetchLibrariesForProject (\<lambda>(w, p, pg). samplePages [[libN ''a'' ''1.0''], [libN ''b'' ''2.0''], []] 0 pg)
       (str ''ws-1'') (str ''p1'') = Some ([0], []) \<and>
   fetchLibrariesForProject (\<lambda>(w, p, pg). samplePages [[libN ''a'' ''1.0''], [libN ''b'' ''2.0''], []] 2 pg)
       (str ''ws-1'') (str ''p1'') = Some ([0, 1, 2], [libN ''a'' ''1.0'', libN ''b'' ''2.0''])"
  using
    page_failure_policy [where w = "str ''ws-1''" and pr = "str ''p1''"
      and e = "AxiosError (str ''Request failed with status code 500'')"
      and getP = "\<lambda>(w, pg). samplePages [[projN ''p1'', projN ''p2''], [projN ''p3''], []] 0 pg"
      and getL = "\<lambda>(w, p, pg). samplePages [[libN ''a'' ''1.0''], [libN ''b'' ''2.0''], []] 0 pg",
      THEN conjunct1]
    page_failure_policy [where w = "str ''ws-1''" and pr = "str ''p1''"
      and e = "AxiosError (str ''Request failed with status code 500'')"
      and getP = "\<lambda>(w, pg). samplePages [[projN ''p1'', projN ''p2''], [projN ''p3''], []] 0 pg"
      and getL = "\<lambda>(w, p, pg). samplePages [[libN ''a'' ''1.0''], [libN ''b'' ''2.0''], []] 0 pg",
      THEN conjunct2, THEN conjunct2, THEN conjunct1]
    page_failure_policy [where w = "str ''ws-1''" and k = 1
      and e = "AxiosError (str ''Request failed with status code 500'')"
      and getP = "\<lambda>(w, pg). samplePages [[projN ''p1'', projN ''p2''], [projN ''p3''], []] 1 pg"
      and ps = "sampleResponse [[projN ''p1'', projN ''p2''], [projN ''p3''], []]",
      THEN conjunct2, THEN conjunct1]
    page_failure_policy [where w = "str ''ws-1''" and pr = "str ''p1''" and k = 2
      and e = "AxiosError (str ''Request failed with status code 500'')"
      and getL = "\<lambda>(w, p, pg). samplePages [[libN ''a'' ''1.0''], [libN ''b'' ''2.0''], []] 2 pg"
      and ls = "sampleResponse [[libN ''a'' ''1.0''], [libN ''b'' ''2.0''], []]",
      THEN conjunct2, THEN conjunct2, THEN conjunct2]
  by (simp add: sample_simps)

text \<open>
  C1. \<open>fetchAllWorkspaces\<close> on a workspace source of two pages (\<open>totalPages = 2\<close>, one
  workspace per page): the loop of the project and library fetchers, run on this source,
  requests the pages 0 and 1 and returns both workspaces, while \<open>fetchAllWorkspaces\<close>
  makes its single request without a page parameter and returns the workspace of the
  first page only.
\<close>

theorem fetchAllWorkspaces_first_page_only:
  "sampleWorkspaces (Some 1) = Inr (sampleResponse [[wsA], [wsB]] 1) \<and>
   itemsOf (sampleResponse [[wsA], [wsB]] 1) = [wsB] \<and>
   totalPagesOf (sampleResponse [[wsA], [wsB]] 1) = 2 \<and>
   pagedLoop (\<lambda>pg. sampleWorkspaces (Some pg)) [] 0 [] = Some ([0, 1], [wsA, wsB]) \<and>
   fetchAllWorkspaces sampleWorkspaces = ([None], Inr [wsA])"
proof -
  have "pagedLoop (\<lambda>pg. sampleWorkspaces (Some pg)) [] 0 [] =
          Some ([0..<2], concat (map (\<lambda>i. itemsOf (sampleResponse [[wsA], [wsB]] i)) [0..<2]))"
    by (rule pagedLoop_complete) (simp_all add: sampleWorkspaces_def sample_simps)
  then show ?thesis
    by (simp add: fetchAllWorkspaces_def sampleWorkspaces_def sample_simps)
qed

lemma fetchAllWorkspaces_one_request: "fst (fetchAllWorkspaces get) = [None]"
  by (simp add: fetchAllWorkspaces_def split: sum.splits option.splits)

section \<open>Properties of fetchAllThreatPackages\<close>

lemma url_of_cursor: "truthy c \<or> c = None \<Longrightarrow> (if truthy c then c else None) = c"
  by auto

lemma threatLoop_fail:
  "truthy c \<or> c = None \<Longrightarrow> get (Suc rc) c = Inl e \<Longrightarrow>
   threatLoop get acc c rc reqs = Some (reqs @ [c], Inl e)"
  by (subst threatLoop.simps) (simp add: url_of_cursor)

lemma threatLoop_last:
  "truthy c \<or> c = None \<Longrightarrow> get (Suc rc) c = Inr p \<Longrightarrow> \<not> truthy (cursor p) \<Longrightarrow>
   threatLoop get acc c rc reqs = Some (reqs @ [c], Inr (acc @ packages p))"
  by (subst threatLoop.simps) (simp add: url_of_cursor)

lemma threatLoop_step:
  "truthy c \<or> c = None \<Longrightarrow> get (Suc rc) c = Inr p \<Longrightarrow> truthy (cursor p) \<Longrightarrow>
   threatLoop get acc c rc reqs =
     threatLoop get (acc @ packages p) (cursor p) (Suc rc) (reqs @ [c])"
  by (subst threatLoop.simps) (simp add: url_of_cursor)

text \<open>The request parameters of a run that starts with \<open>c\<close> and receives \<open>ps\<close>.\<close>

lemma threatLoop_run:
  assumes "truthy c \<or> c = None"
    and "\<And>i. i < length ps \<Longrightarrow>
           get (Suc (rc + i)) ((c # map cursor ps) ! i) = Inr (ps ! i) \<and> truthy (cursor (ps ! i))"
  shows "threatLoop get acc c rc reqs =
           threatLoop get (acc @ concat (map packages ps)) (last (c # map cursor ps))
             (rc + length ps) (reqs @ butlast (c # map cursor ps))"
  using assms
proof (induction ps arbitrary: acc c rc reqs)
  case Nil
  then show ?case by simp
next
  case (Cons p ps)
  have here: "get (Suc rc) c = Inr p" "truthy (cursor p)"
    using Cons.prems(2) [of 0] by simp_all
  have "threatLoop get acc c rc reqs =
          threatLoop get (acc @ packages p) (cursor p) (Suc rc) (reqs @ [c])"
    using Cons.prems(1) here by (rule threatLoop_step)
  also have "\<dots> = threatLoop get ((acc @ packages p) @ concat (map packages ps))
        (last (cursor p # map cursor ps)) (Suc rc + length ps)
        ((reqs @ [c]) @ butlast (cursor p # map cursor ps))"
  proof (rule Cons.IH)
    show "truthy (cursor p) \<or> cursor p = None" using here by simp
    show "get (Suc (Suc rc + i)) ((cursor p # map cursor ps) ! i) = Inr (ps ! i) \<and>
          truthy (cursor (ps ! i))" if "i < length ps" for i
      using Cons.prems(2) [of "Suc i"] that by simp
  qed
  finally show ?case by simp
qed

lemma request_param:
  "(None # map cursor ps) ! i = (if i = 0 then None else cursor (ps ! (i - 1)))"
  if "i \<le> length ps"
  using that by (cases i) simp_all

text \<open>
  C4. When the feed answers the successive requests with the pages \<open>ps\<close>, every page
  but the last carrying a truthy cursor and the last one carrying no cursor, the number 0
  or the empty string, \<open>fetchAllThreatPackages\<close> returns the packages of all pages
  concatenated in page order, after one request per page: the first without a cursor, each
  later one with the cursor of the page before it.
\<close>

theorem cursor_pagination_complete:
  assumes "ps \<noteq> []"
    and "\<forall>i<length ps.
           get (Suc i) (if i = 0 then None else cursor (ps ! (i - 1))) = Inr (ps ! i)"
    and "\<forall>i<length ps - 1. truthy (cursor (ps ! i))"
    and "cursor (last ps) \<in> {None, Some (CursorNumber 0), Some (CursorString [])}"
  shows "fetchAllThreatPackages get =
           Some (None # map cursor (butlast ps), Inr (concat (map packages ps)))"
proof -
  define qs where "qs = butlast ps"
  define p where "p = last ps"
  have ps: "ps = qs @ [p]" using assms(1) by (simp add: qs_def p_def)
  have falsy: "\<not> truthy (cursor p)" using assms(4) by (auto simp: p_def)
  have served: "get (Suc i) ((None # map cursor ps) ! i) = Inr (ps ! i)" if "i < length ps" for i
    using assms(2) that by (simp add: request_param)
  have run: "threatLoop get [] None 0 [] =
      threatLoop get ([] @ concat (map packages qs)) (last (None # map cursor qs))
        (0 + length qs) ([] @ butlast (None # map cursor qs))"
  proof (rule threatLoop_run)
    show "truthy None \<or> (None :: cursor_value option) = None" by simp
    show "get (Suc (0 + i)) ((None # map cursor qs) ! i) = Inr (qs ! i) \<and> truthy (cursor (qs ! i))"
      if "i < length qs" for i
    proof -
      have "i < length ps" "i < length ps - 1" using that by (simp_all add: ps)
      moreover have "(None # map cursor ps) ! i = (None # map cursor qs) ! i"
        using that by (cases i) (simp_all add: ps nth_append)
      moreover have "ps ! i = qs ! i" using that by (simp add: ps nth_append)
      moreover have "truthy (cursor (ps ! i))"
        using assms(3) \<open>i < length ps - 1\<close> by blast
      ultimately show ?thesis using served [of i] by simp
    qed
  qed
  have lastc: "truthy (last (None # map cursor qs)) \<or> last (None # map cursor qs) = None"
  proof (cases qs rule: rev_cases)
    case Nil
    then show ?thesis by simp
  next
    case (snoc qs' q)
    have "length qs' < length ps - 1" by (simp add: ps snoc)
    then have "truthy (cursor (ps ! length qs'))" using assms(3) by blast
    then show ?thesis by (simp add: ps snoc nth_append)
  qed
  have "get (Suc (length qs)) ((None # map cursor ps) ! length qs) = Inr (ps ! length qs)"
    using served [of "length qs"] by (simp add: ps)
  moreover have "(None # map cursor ps) ! length qs = last (None # map cursor qs)"
    by (cases qs rule: rev_cases) (simp_all add: ps nth_append)
  ultimately have final: "get (Suc (length qs)) (last (None # map cursor qs)) = Inr p"
    by (simp add: ps)
  have "threatLoop get (concat (map packages qs)) (last (None # map cursor qs)) (length qs)
          (butlast (None # map cursor qs)) =
        Some (butlast (None # map cursor qs) @ [last (None # map cursor qs)],
              Inr (concat (map packages qs) @ packages p))"
    using lastc final falsy by (rule threatLoop_last)
  then show ?thesis
    unfolding fetchAllThreatPackages_def run by (simp add: ps)
qed

text \<open>
  A feed of two pages; the second ends the pagination in the same way whether its cursor
  is missing, 0 or the empty string.
\<close>

theorem cursor_pagination_complete_witness:
  "fetchAllThreatPackages (sampleFeed None) = Some ([None, Some (CursorNumber 50)], Inr [pkgA, pkgB, pkgC]) \<and>
   fetchAllThreatPackages (sampleFeed (Some (CursorNumber 0))) = fetchAllThreatPackages (sampleFeed None) \<and>
   fetchAllThreatPackages (sampleFeed (Some (CursorString []))) = fetchAllThreatPackages (sampleFeed None)"
  using cursor_pagination_complete [of "[feedPage1, feedPage2 None]" "sampleFeed None"]
    cursor_pagination_complete [of "[feedPage1, feedPage2 (Some (CursorNumber 0))]"
      "sampleFeed (Some (CursorNumber 0))"]
    cursor_pagination_complete [of "[feedPage1, feedPage2 (Some (CursorString []))]"
      "sampleFeed (Some (CursorString []))"]
  by (simp add: sampleFeed_def feedPage1_def feedPage2_def All_less_Suc)

text \<open>
  C5. When the feed has answered the first requests with the pages \<open>ps\<close>, each with a
  truthy cursor, and the next request fails with \<open>e\<close>, \<open>fetchAllThreatPackages\<close> throws
  \<open>e\<close>: the outcome is the error and carries none of the packages of \<open>ps\<close>.
\<close>

theorem threat_feed_failure_propagates:
  assumes "\<forall>i<length ps.
             get (Suc i) (if i = 0 then None else cursor (ps ! (i - 1))) = Inr (ps ! i) \<and>
             truthy (cursor (ps ! i))"
    and "get (Suc (length ps)) (if ps = [] then None else cursor (last ps)) = Inl e"
  shows "fetchAllThreatPackages get = Some (None # map cursor ps, Inl e)"
proof -
  have run: "threatLoop get [] None 0 [] =
      threatLoop get ([] @ concat (map packages ps)) (last (None # map cursor ps))
        (0 + length ps) ([] @ butlast (None # map cursor ps))"
  proof (rule threatLoop_run)
    show "truthy None \<or> (None :: cursor_value option) = None" by simp
    show "get (Suc (0 + i)) ((None # map cursor ps) ! i) = Inr (ps ! i) \<and> truthy (cursor (ps ! i))"
      if "i < length ps" for i
      using assms(1) that by (simp add: request_param)
  qed
  have lastc: "truthy (last (None # map cursor ps)) \<or> last (None # map cursor ps) = None"
  proof (cases ps rule: rev_cases)
    case Nil
    then show ?thesis by simp
  next
    case (snoc ps' q)
    have "length ps' < length ps" by (simp add: snoc)
    then have "truthy (cursor (ps ! length ps'))" using assms(1) by blast
    then show ?thesis by (simp add: snoc)
  qed
  have "last (None # map cursor ps) = (if ps = [] then None else cursor (last ps))"
    by (simp add: last_map)
  then have final: "get (Suc (length ps)) (last (None # map cursor ps)) = Inl e"
    using assms(2) by simp
  have "threatLoop get (concat (map packages ps)) (last (None # map cursor ps)) (length ps)
          (butlast (None # map cursor ps)) =
        Some (butlast (None # map cursor ps) @ [last (None # map cursor ps)], Inl e)"
    using lastc final by (rule threatLoop_fail)
  then show ?thesis
    unfolding fetchAllThreatPackages_def run by simp
qed

text \<open>A feed whose first page holds two packages and whose second request times out.\<close>

theorem threat_feed_failure_propagates_witness:
  "fetchAllThreatPackages failingFeed =
     Some ([None, Some (CursorNumber 50)], Inl (AxiosError (str ''timeout of 30000ms exceeded'')))"
  using threat_feed_failure_propagates [of "[feedPage1]" failingFeed
      "AxiosError (str ''timeout of 30000ms exceeded'')"]
  by (simp add: failingFeed_def feedPage1_def)

section \<open>Properties of generateSummary\<close>

lemma digit_isoChars: "n < 10 \<Longrightarrow> (of_nat (48 + n) :: 16 word) \<in> isoChars"
proof -
  assume "n < 10"
  then have "n \<in> {0, 1, 2, 3, 4, 5, 6, 7, 8, 9}" by auto
  then show ?thesis by (auto simp: isoChars_def)
qed

lemma toString_isoChars: "set (toString n) \<subseteq> isoChars"
proof (induction n rule: toString.induct)
  case (1 n)
  show ?case
  proof (cases "n < 10")
    case True
    then have "toString n = [of_nat (48 + n)]" by (subst toString.simps) simp
    then show ?thesis using digit_isoChars [OF True] by simp
  next
    case False
    then have "toString n = toString (n div 10) @ [of_nat (48 + n mod 10)]"
      by (subst toString.simps) simp
    moreover have "(of_nat (48 + n mod 10) :: 16 word) \<in> isoChars"
      by (rule digit_isoChars) simp
    ultimately show ?thesis using 1 False by simp
  qed
qed

lemma zeroPad_isoChars: "set (zeroPad w n) \<subseteq> isoChars"
  using toString_isoChars [of n] by (auto simp: zeroPad_def isoChars_def)

lemma isoYear_isoChars: "set (isoYear y) \<subseteq> isoChars"
  using zeroPad_isoChars [of 4 "nat y"] zeroPad_isoChars [of 6 "nat \<bar>y\<bar>"]
  by (auto simp: isoYear_def str_def isoChars_def)

lemma toISOString_isoChars: "set (toISOString t) \<subseteq> isoChars"
proof (cases "civil (t div 86400000)")
  case (fields y m d)
  have "set (str ''-'') \<subseteq> isoChars" "set (str ''T'') \<subseteq> isoChars" "set (str '':'') \<subseteq> isoChars"
    "set (str ''.'') \<subseteq> isoChars" "set (str ''Z'') \<subseteq> isoChars"
    by (simp_all add: str_def isoChars_def)
  then show ?thesis
    by (simp add: toISOString_def Let_def fields zeroPad_isoChars isoYear_isoChars)
qed

lemma clean_summary_chars:
  assumes "c \<notin> isoChars"
    and "c \<notin> set (str ''THREAT FEED SECURITY ALERT SUMMARY\<newline>=Generated: Total vulnerable packages found: '')"
    and "c \<notin> set cleanMessage"
  shows "c \<notin> set (generateSummary now [])"
proof -
  have "c \<notin> set (toISOString now)" using assms(1) toISOString_isoChars by blast
  moreover have "c \<notin> set (toString 0)" using assms(1) toString_isoChars by blast
  ultimately show ?thesis
    using assms(2,3) by (simp add: generateSummary_def summaryHeading_def str_def)
qed

text \<open>
  C9. For the empty match list \<open>generateSummary\<close> returns the heading followed by the fixed
  clean message and nothing else: the text contains neither the opening \<open>. Package: \<close> of
  a numbered block nor the \<open>ACTION REQUIRED\<close> of the footer.
\<close>

theorem zero_match_summary:
  "generateSummary now [] =
     summaryHeading now 0 @ [0x2705] @
     str '' No vulnerable packages found in your projects.\<newline>'' @
     str ''All packages in your Veracode SCA projects are clean.\<newline>'' \<and>
   \<not> sublist (str ''. Package: '') (generateSummary now []) \<and>
   \<not> sublist (str ''ACTION REQUIRED'') (generateSummary now [])"
proof -
  have P: "(80 :: 16 word) \<notin> set (generateSummary now [])"
    by (rule clean_summary_chars) (simp_all add: isoChars_def cleanMessage_def str_def)
  have Q: "(81 :: 16 word) \<notin> set (generateSummary now [])"
    by (rule clean_summary_chars) (simp_all add: isoChars_def cleanMessage_def str_def)
  have "(80 :: 16 word) \<in> set (str ''. Package: '')" by (simp add: str_def)
  then have 1: "\<not> sublist (str ''. Package: '') (generateSummary now [])"
    using P set_mono_sublist by blast
  have "(81 :: 16 word) \<in> set (str ''ACTION REQUIRED'')" by (simp add: str_def)
  then have 2: "\<not> sublist (str ''ACTION REQUIRED'') (generateSummary now [])"
    using Q set_mono_sublist by blast
  have "generateSummary now [] = summaryHeading now 0 @ cleanMessage"
    by (simp add: generateSummary_def)
  with 1 2 show ?thesis by (simp add: cleanMessage_def)
qed

section \<open>Properties of generateMaliciousPackagesTable\<close>

lemma mset_insertSorted: "mset (insertSorted cmp x ys) = add_mset x (mset ys)"
  by (induction ys) simp_all

lemma mset_arraySort: "mset (arraySort cmp xs) = mset xs"
  by (induction xs) (simp_all add: arraySort_def mset_insertSorted)

lemma set_arraySort: "set (arraySort cmp xs) = set xs"
  using mset_arraySort [of cmp xs] by (metis set_mset_mset)

lemma compareCreated_valid:
  "parse (created a) \<noteq> None \<Longrightarrow> parse (created b) \<noteq> None \<Longrightarrow>
   compareCreated parse a b = the (parse (created b)) - the (parse (created a))"
  by (auto simp: compareCreated_def)

lemma insertSorted_insort_key:
  assumes "parse (created x) \<noteq> None" and "\<forall>p\<in>set ys. parse (created p) \<noteq> None"
  shows "insertSorted (compareCreated parse) x ys =
           insort_key (\<lambda>p. - the (parse (created p))) x ys"
  using assms by (induction ys) (simp_all add: compareCreated_valid)

lemma arraySort_sort_key:
  assumes "\<forall>p\<in>set xs. parse (created p) \<noteq> None"
  shows "arraySort (compareCreated parse) xs = sort_key (\<lambda>p. - the (parse (created p))) xs"
  using assms
proof (induction xs)
  case Nil
  then show ?case by (simp add: arraySort_def)
next
  case (Cons x xs)
  then have IH: "arraySort (compareCreated parse) xs = sort_key (\<lambda>p. - the (parse (created p))) xs"
    by simp
  have "arraySort (compareCreated parse) (x # xs) =
          insertSorted (compareCreated parse) x (arraySort (compareCreated parse) xs)"
    by (simp add: arraySort_def)
  also have "\<dots> = insort_key (\<lambda>p. - the (parse (created p))) x (arraySort (compareCreated parse) xs)"
    using Cons.prems by (intro insertSorted_insort_key) (simp_all add: set_arraySort)
  finally show ?case by (simp add: IH)
qed

lemma arraySort_descending:
  assumes "\<forall>p\<in>set xs. parse (created p) \<noteq> None"
  shows "sorted_wrt (\<lambda>a b. the (parse (created b)) \<le> the (parse (created a)))
           (arraySort (compareCreated parse) xs)"
proof -
  have "sorted (map (\<lambda>p. - the (parse (created p))) (sort_key (\<lambda>p. - the (parse (created p))) xs))"
    by (rule sorted_sort_key)
  then show ?thesis
    by (simp add: arraySort_sort_key [OF assms] sorted_map)
qed

lemma heap_after_sort:
  "sortInPlace cmp (fst (spread h a)) (snd (spread h a)) = (h @ [arraySort cmp (h ! a)], length h)"
  by (simp add: spread_def sortInPlace_def)

lemma generate_heap:
  "fst (generateMaliciousPackagesTable parse now h a) =
     (if h ! a = [] then h else h @ [arraySort (compareCreated parse) (h ! a)])"
  by (simp add: generateMaliciousPackagesTable_def spread_def sortInPlace_def)

lemma generate_result:
  "h ! a \<noteq> [] \<Longrightarrow>
   snd (generateMaliciousPackagesTable parse now h a) =
     (let sortedPackages = arraySort (compareCreated parse) (h ! a);
          table = tableHeading now (length (h ! a))
      in case maxLengths parse sortedPackages (10, 9, 12, 15) of
           Inl e \<Rightarrow> Inl e
         | Inr w \<Rightarrow>
             (case tableRows parse w sortedPackages (table @ tableHeader w @ tableSeparator w) of
                Inl e \<Rightarrow> Inl e
              | Inr table' \<Rightarrow> Inr (table' @ tableNote)))"
  by (simp add: generateMaliciousPackagesTable_def spread_def sortInPlace_def Let_def
      split: sum.splits)

text \<open>
  C10. \<open>generateMaliciousPackagesTable\<close> leaves every array that existed before the call
  as it was, the array \<open>threatPackages\<close> refers to among them: the sort works on a newly
  allocated copy.
\<close>

theorem table_input_unchanged:
  "take (length h) (fst (generateMaliciousPackagesTable parse now h threatPackages)) = h \<and>
   (threatPackages < length h \<longrightarrow>
      fst (generateMaliciousPackagesTable parse now h threatPackages) ! threatPackages =
        h ! threatPackages)"
  by (simp add: generate_heap nth_append)

lemma sample_sorted:
  "arraySort (compareCreated sampleParse) [pkgA, pkgB, pkgC] = [pkgC, pkgA, pkgB]"
  by code_simp

text \<open>
  The store after rendering the three sample packages: the input array is untouched and
  the sorted copy is a second array.
\<close>

theorem table_input_unchanged_witness:
  "fst (generateMaliciousPackagesTable sampleParse 1717200000123 [[pkgA, pkgB, pkgC]] 0) ! 0 =
     [pkgA, pkgB, pkgC] \<and>
   fst (generateMaliciousPackagesTable sampleParse 1717200000123 [[pkgA, pkgB, pkgC]] 0) =
     [[pkgA, pkgB, pkgC], [pkgC, pkgA, pkgB]]"
  using table_input_unchanged [of "[[pkgA, pkgB, pkgC]]" sampleParse 1717200000123 0]
  by (simp add: generate_heap sample_sorted)

lemma maxLengths_invalid:
  "p \<in> set pkgs \<Longrightarrow> parse (created p) = None \<Longrightarrow> maxLengths parse pkgs w = Inl RangeError"
proof (induction pkgs arbitrary: w)
  case Nil
  then show ?case by simp
next
  case (Cons q pkgs)
  obtain a b c d where w: "w = (a, b, c, d)" by (cases w)
  show ?case
  proof (cases "parse (created q)")
    case None
    then show ?thesis by (simp add: w dateAdded_def)
  next
    case (Some t)
    then have "p \<in> set pkgs" using Cons.prems by auto
    then show ?thesis using Cons.IH Cons.prems(2) Some by (simp add: w dateAdded_def)
  qed
qed

text \<open>
  C8. When the list holds a package whose \<open>created\<close> does not parse, the function throws
  a \<open>RangeError\<close> and returns no table, although the sort before it has run to the end and
  left a permutation of the list in the copy.
\<close>

theorem invalid_date_throws:
  assumes "p \<in> set (h ! threatPackages)" and "parse (created p) = None"
  shows "snd (generateMaliciousPackagesTable parse now h threatPackages) = Inl RangeError \<and>
         fst (generateMaliciousPackagesTable parse now h threatPackages) =
           h @ [arraySort (compareCreated parse) (h ! threatPackages)] \<and>
         mset (arraySort (compareCreated parse) (h ! threatPackages)) = mset (h ! threatPackages)"
proof -
  have ne: "h ! threatPackages \<noteq> []" using assms(1) by auto
  have "p \<in> set (arraySort (compareCreated parse) (h ! threatPackages))"
    using assms(1) by (simp add: set_arraySort)
  then have "maxLengths parse (arraySort (compareCreated parse) (h ! threatPackages)) (10, 9, 12, 15) =
      Inl RangeError"
    using assms(2) by (rule maxLengths_invalid)
  then show ?thesis using ne by (simp add: generate_result generate_heap mset_arraySort)
qed

lemma sample_invalid: "sampleParse (created (pkgB\<lparr>created := str ''not-a-date''\<rparr>)) = None"
  by code_simp

text \<open>The sample list with the second date replaced by a string that does not parse.\<close>

theorem invalid_date_throws_witness:
  "snd (generateMaliciousPackagesTable sampleParse 1717200000123
          [[pkgA, pkgB\<lparr>created := str ''not-a-date''\<rparr>, pkgC]] 0) = Inl RangeError"
  using invalid_date_throws [of "pkgB\<lparr>created := str ''not-a-date''\<rparr>"
      "[[pkgA, pkgB\<lparr>created := str ''not-a-date''\<rparr>, pkgC]]" 0 sampleParse 1717200000123]
    sample_invalid
  by simp

lemma dateAdded_valid:
  "parse (created p) \<noteq> None \<Longrightarrow> dateAdded parse p = Inr (dateOf parse p)"
  by (auto simp: dateAdded_def dateOf_def)

lemma Max_insert_max:
  "finite S \<Longrightarrow> Max (insert (max a x) S) = Max (insert (a :: nat) (insert x S))"
  by (cases "S = {}") (simp_all add: max.assoc)

lemma maxLengths_valid:
  assumes "\<forall>p\<in>set pkgs. parse (created p) \<noteq> None"
  shows "maxLengths parse pkgs (a, b, c, d) =
           Inr (Max (insert a ((\<lambda>p. length (dateOf parse p)) ` set pkgs)),
                Max (insert b ((\<lambda>p. length (orUnknown (ecosystem p))) ` set pkgs)),
                Max (insert c ((\<lambda>p. length (orUnknown (name p))) ` set pkgs)),
                Max (insert d ((\<lambda>p. length (orUnknown (version p))) ` set pkgs)))"
  using assms
proof (induction pkgs arbitrary: a b c d)
  case Nil
  then show ?case by simp
next
  case (Cons q pkgs)
  have q: "dateAdded parse q = Inr (dateOf parse q)"
    using Cons.prems by (simp add: dateAdded_valid)
  have rest: "\<forall>p\<in>set pkgs. parse (created p) \<noteq> None" using Cons.prems by simp
  show ?case
    by (simp only: maxLengths.simps q sum.case Cons.IH [OF rest] list.set image_insert
        Max_insert_max [OF finite_imageI [OF finite_set]])
qed

lemma tableRows_valid:
  assumes "\<forall>p\<in>set pkgs. parse (created p) \<noteq> None"
  shows "tableRows parse (wd, we, wn, wv) pkgs table =
           Inr (table @ concat (map (\<lambda>p.
              str ''| '' @ padEnd (dateOf parse p) wd @ str '' | '' @
              padEnd (orUnknown (ecosystem p)) we @ str '' | '' @
              padEnd (orUnknown (name p)) wn @ str '' | '' @
              padEnd (orUnknown (version p)) wv @ str '' |\<newline>'') pkgs))"
  using assms
proof (induction pkgs arbitrary: table)
  case Nil
  then show ?case by simp
next
  case (Cons q pkgs)
  have q: "dateAdded parse q = Inr (dateOf parse q)"
    using Cons.prems by (simp add: dateAdded_valid)
  have rest: "\<forall>p\<in>set pkgs. parse (created p) \<noteq> None" using Cons.prems by simp
  show ?case by (simp add: q Cons.IH [OF rest])
qed

lemma length_padEnd: "length s \<le> w \<Longrightarrow> length (padEnd s w) = w"
  by (simp add: padEnd_def)

lemma Max_insert_image_ge:
  "p \<in> set pkgs \<Longrightarrow> f p \<le> Max (insert (a :: nat) (f ` set pkgs))"
  by (rule Max_ge) simp_all

text \<open>
  C7. For a non-empty list whose \<open>created\<close> fields all parse, the text returned is the
  heading, the header row, the separator, one row per package and the note. The rows follow
  the sorted copy, a permutation of the input in descending order of time value. Each cell
  is its value followed by spaces (\<open>padEnd\<close>), the value of an empty ecosystem, name or
  version being \<open>Unknown\<close>; the width of a column is the maximum of the length of its
  header and of the lengths of its values, and every cell of every row has exactly the width
  of its column.
\<close>

theorem table_sorted_and_padded:
  assumes "h ! threatPackages = pkgs" and "pkgs \<noteq> []"
    and "\<forall>p\<in>set pkgs. parse (created p) \<noteq> None"
  shows
    "let sortedPackages = arraySort (compareCreated parse) pkgs;
         wd = Max (insert (length (str ''Date Added''))
                ((\<lambda>p. length (dateOf parse p)) ` set pkgs));
         we = Max (insert (length (str ''Ecosystem''))
                ((\<lambda>p. length (orUnknown (ecosystem p))) ` set pkgs));
         wn = Max (insert (length (str ''Package Name''))
                ((\<lambda>p. length (orUnknown (name p))) ` set pkgs));
         wv = Max (insert (length (str ''Package Version''))
                ((\<lambda>p. length (orUnknown (version p))) ` set pkgs))
     in snd (generateMaliciousPackagesTable parse now h threatPackages) =
          Inr (tableHeading now (length pkgs) @
               tableHeader (wd, we, wn, wv) @ tableSeparator (wd, we, wn, wv) @
               concat (map (\<lambda>p.
                  str ''| '' @ padEnd (dateOf parse p) wd @ str '' | '' @
                  padEnd (orUnknown (ecosystem p)) we @ str '' | '' @
                  padEnd (orUnknown (name p)) wn @ str '' | '' @
                  padEnd (orUnknown (version p)) wv @ str '' |\<newline>'') sortedPackages) @
               tableNote) \<and>
        mset sortedPackages = mset pkgs \<and>
        sorted_wrt (\<lambda>a b. the (parse (created b)) \<le> the (parse (created a))) sortedPackages \<and>
        (\<forall>p\<in>set pkgs.
           length (padEnd (dateOf parse p) wd) = wd \<and>
           length (padEnd (orUnknown (ecosystem p)) we) = we \<and>
           length (padEnd (orUnknown (name p)) wn) = wn \<and>
           length (padEnd (orUnknown (version p)) wv) = wv)"
proof -
  define sortedPackages where "sortedPackages = arraySort (compareCreated parse) pkgs"
  define wd where "wd = Max (insert (length (str ''Date Added''))
    ((\<lambda>p. length (dateOf parse p)) ` set pkgs))"
  define we where "we = Max (insert (length (str ''Ecosystem''))
    ((\<lambda>p. length (orUnknown (ecosystem p))) ` set pkgs))"
  define wn where "wn = Max (insert (length (str ''Package Name''))
    ((\<lambda>p. length (orUnknown (name p))) ` set pkgs))"
  define wv where "wv = Max (insert (length (str ''Package Version''))
    ((\<lambda>p. length (orUnknown (version p))) ` set pkgs))"
  have set_sorted: "set sortedPackages = set pkgs"
    by (simp add: sortedPackages_def set_arraySort)
  have valid: "\<forall>p\<in>set sortedPackages. parse (created p) \<noteq> None"
    using assms(3) by (simp add: set_sorted)
  have hdr: "length (str ''Date Added'') = 10" "length (str ''Ecosystem'') = 9"
    "length (str ''Package Name'') = 12" "length (str ''Package Version'') = 15"
    by (simp_all add: str_def)
  have widths: "maxLengths parse sortedPackages (10, 9, 12, 15) = Inr (wd, we, wn, wv)"
    by (simp only: maxLengths_valid [OF valid] set_sorted wd_def we_def wn_def wv_def hdr)
  have rows: "tableRows parse (wd, we, wn, wv) sortedPackages table =
      Inr (table @ concat (map (\<lambda>p.
              str ''| '' @ padEnd (dateOf parse p) wd @ str '' | '' @
              padEnd (orUnknown (ecosystem p)) we @ str '' | '' @
              padEnd (orUnknown (name p)) wn @ str '' | '' @
              padEnd (orUnknown (version p)) wv @ str '' |\<newline>'') sortedPackages))" for table
    using valid by (rule tableRows_valid)
  have result: "snd (generateMaliciousPackagesTable parse now h threatPackages) =
      Inr (tableHeading now (length pkgs) @
           tableHeader (wd, we, wn, wv) @ tableSeparator (wd, we, wn, wv) @
           concat (map (\<lambda>p.
              str ''| '' @ padEnd (dateOf parse p) wd @ str '' | '' @
              padEnd (orUnknown (ecosystem p)) we @ str '' | '' @
              padEnd (orUnknown (name p)) wn @ str '' | '' @
              padEnd (orUnknown (version p)) wv @ str '' |\<newline>'') sortedPackages) @
           tableNote)"
    using assms(1,2)
    by (simp add: generate_result sortedPackages_def [symmetric] widths rows del: tableRows.simps)
  have perm: "mset sortedPackages = mset pkgs"
    by (simp add: sortedPackages_def mset_arraySort)
  have desc: "sorted_wrt (\<lambda>a b. the (parse (created b)) \<le> the (parse (created a))) sortedPackages"
    unfolding sortedPackages_def using assms(3) by (rule arraySort_descending)
  have cells: "length (padEnd (dateOf parse p) wd) = wd \<and>
           length (padEnd (orUnknown (ecosystem p)) we) = we \<and>
           length (padEnd (orUnknown (name p)) wn) = wn \<and>
           length (padEnd (orUnknown (version p)) wv) = wv" if "p \<in> set pkgs" for p
    unfolding wd_def we_def wn_def wv_def
    by (intro conjI length_padEnd Max_insert_image_ge that)
  show ?thesis
    unfolding Let_def
    using result perm desc cells
    by (simp only: sortedPackages_def wd_def we_def wn_def wv_def) blast
qed

lemma sample_parsed:
  "sampleParse (created pkgA) = Some 1704067200000"
  "sampleParse (created pkgB) = Some 1686787200000"
  "sampleParse (created pkgC) = Some 1717200000000"
  by code_simp+

lemma sample_dates:
  "toISOString 1717200000123 = str ''2024-06-01T00:00:00.123Z''"
  "dateOf sampleParse pkgA = str ''2024-01-01''"
  "dateOf sampleParse pkgB = str ''2023-06-15''"
  "dateOf sampleParse pkgC = str ''2024-06-01''"
  by code_simp+

lemma sample_fields:
  "orUnknown (ecosystem pkgA) = str ''npm''" "orUnknown (name pkgA) = str ''left-pad''"
  "orUnknown (version pkgA) = str ''1.0''"
  "orUnknown (ecosystem pkgB) = str ''Unknown''"
  "orUnknown (name pkgB) = str ''a-very-long-package-name''"
  "orUnknown (version pkgB) = str ''Unknown''"
  "orUnknown (ecosystem pkgC) = str ''pypi''" "orUnknown (name pkgC) = str ''x''"
  "orUnknown (version pkgC) = str ''2.0.0''"
  by (simp_all add: orUnknown_def pkgA_def pkgB_def pkgC_def str_def)

lemma length_str: "length (str s) = length s"
  by (simp add: str_def)

lemma sample_widths:
    "Max (insert (length (str ''Date Added''))
       ((\<lambda>p. length (dateOf sampleParse p)) ` set [pkgA, pkgB, pkgC])) = 10"
    "Max (insert (length (str ''Ecosystem''))
       ((\<lambda>p. length (orUnknown (ecosystem p))) ` set [pkgA, pkgB, pkgC])) = 9"
    "Max (insert (length (str ''Package Name''))
       ((\<lambda>p. length (orUnknown (name p))) ` set [pkgA, pkgB, pkgC])) = 24"
    "Max (insert (length (str ''Package Version''))
       ((\<lambda>p. length (orUnknown (version p))) ` set [pkgA, pkgB, pkgC])) = 15"
  by (simp_all add: sample_dates sample_fields length_str)

lemma sample_valid: "\<forall>p\<in>set [pkgA, pkgB, pkgC]. sampleParse (created p) \<noteq> None"
  by (simp add: sample_parsed)

lemma toString_3: "toString (length [pkgA, pkgB, pkgC]) = str ''3''"
  by code_simp

lemma sample_heading:
  "tableHeading 1717200000123 (length [pkgA, pkgB, pkgC]) =
     str ''MALICIOUS PACKAGES FROM THREAT FEED\<newline>'' @
     str ''=====================================\<newline>\<newline>'' @
     str ''Generated: 2024-06-01T00:00:00.123Z\<newline>'' @
     str ''Total packages in threat feed: 3\<newline>\<newline>''"
  by (simp only: tableHeading_def sample_dates toString_3) (simp add: str_def)

lemma sample_rows:
  "tableHeader (10, 9, 24, 15) =
     str ''| Date Added | Ecosystem | Package Name             | Package Version |\<newline>''"
  "tableSeparator (10, 9, 24, 15) =
     str ''|------------|-----------|--------------------------|-----------------|\<newline>''"
  "str ''| '' @ padEnd (dateOf sampleParse pkgC) 10 @ str '' | '' @
      padEnd (orUnknown (ecosystem pkgC)) 9 @ str '' | '' @
      padEnd (orUnknown (name pkgC)) 24 @ str '' | '' @
      padEnd (orUnknown (version pkgC)) 15 @ str '' |\<newline>'' =
     str ''| 2024-06-01 | pypi      | x                        | 2.0.0           |\<newline>''"
  "str ''| '' @ padEnd (dateOf sampleParse pkgA) 10 @ str '' | '' @
      padEnd (orUnknown (ecosystem pkgA)) 9 @ str '' | '' @
      padEnd (orUnknown (name pkgA)) 24 @ str '' | '' @
      padEnd (orUnknown (version pkgA)) 15 @ str '' |\<newline>'' =
     str ''| 2024-01-01 | npm       | left-pad                 | 1.0             |\<newline>''"
  "str ''| '' @ padEnd (dateOf sampleParse pkgB) 10 @ str '' | '' @
      padEnd (orUnknown (ecosystem pkgB)) 9 @ str '' | '' @
      padEnd (orUnknown (name pkgB)) 24 @ str '' | '' @
      padEnd (orUnknown (version pkgB)) 15 @ str '' |\<newline>'' =
     str ''| 2023-06-15 | Unknown   | a-very-long-package-name | Unknown         |\<newline>''"
  by (simp_all add: tableHeader_def tableSeparator_def repeat_dash_def padEnd_def sample_dates
      sample_fields length_str)
     (simp_all add: str_def eval_nat_numeral)

text \<open>The table of the three sample packages, rendered on 2024-06-01.\<close>

theorem table_sorted_and_padded_witness:
  "snd (generateMaliciousPackagesTable sampleParse 1717200000123 [[pkgA, pkgB, pkgC]] 0) =
     Inr (str ''MALICIOUS PACKAGES FROM THREAT FEED\<newline>'' @
          str ''=====================================\<newline>\<newline>'' @
          str ''Generated: 2024-06-01T00:00:00.123Z\<newline>'' @
          str ''Total packages in threat feed: 3\<newline>\<newline>'' @
          str ''| Date Added | Ecosystem | Package Name             | Package Version |\<newline>'' @
          str ''|------------|-----------|--------------------------|-----------------|\<newline>'' @
          str ''| 2024-06-01 | pypi      | x                        | 2.0.0           |\<newline>'' @
          str ''| 2024-01-01 | npm       | left-pad                 | 1.0             |\<newline>'' @
          str ''| 2023-06-15 | Unknown   | a-very-long-package-name | Unknown         |\<newline>'' @
          tableNote)"
proof -
  have "[[pkgA, pkgB, pkgC]] ! 0 = [pkgA, pkgB, pkgC]" "[pkgA, pkgB, pkgC] \<noteq> []"
    by simp_all
  from table_sorted_and_padded [OF this sample_valid, of 1717200000123]
  show ?thesis
    unfolding Let_def sample_widths sample_sorted
    by (simp only: list.map concat.simps sample_heading sample_rows append_Nil2 append_assoc)
qed

end
